theory Spec2Isabelle
  imports Main
begin

section \<open>FaaSr secrets API: \<^verbatim>\<open>FaaSr_py/secrets_api/secret.py\<close>\<close>

text \<open>
  The module has two functions. \<^verbatim>\<open>faasr_secret_gh\<close> reads one variable of the process
  environment; \<^verbatim>\<open>faasr_secret\<close> walks the workflow payload (a \<^verbatim>\<open>dict[str, Any]\<close>) to the
  platform type of the current function's compute server and dispatches on it. Both log
  every failure with \<^verbatim>\<open>logger.error\<close> before raising.

  The embedding is shallow: Python values are a datatype, exceptions are the left
  summand of a sum type, and the three things the code can touch beyond its arguments
  (the environment, the logger and the payload object it is handed) are passed
  explicitly and returned.
\<close>

subsection \<open>Python values\<close>

text \<open>
  The payload is annotated \<^verbatim>\<open>dict[str, Any]\<close>; it is the parsed JSON workflow
  description. \<open>pyval\<close> is the universe of such values: \<^verbatim>\<open>None\<close>, booleans,
  (unbounded) integers, strings, lists and dictionaries with string keys. A dictionary
  is an association list in insertion order, read with \<open>map_of\<close>; the keys of a Python
  dictionary are distinct, and every result below holds for any list. Floating-point
  numbers are not part of the model. A \<open>char\<close> stands for a code point below 256.
\<close>

datatype pyval =
    PyNone
  | PyBool bool
  | PyInt int
  | PyStr string
  | PyList "pyval list"
  | PyDict "(string \<times> pyval) list"

type_synonym pydict = "(string \<times> pyval) list"

text \<open>Truth value testing, as \<^verbatim>\<open>not x\<close> uses it.\<close>

fun py_bool :: "pyval \<Rightarrow> bool" where
  "py_bool PyNone = False"
| "py_bool (PyBool b) = b"
| "py_bool (PyInt i) = (i \<noteq> 0)"
| "py_bool (PyStr s) = (s \<noteq> [])"
| "py_bool (PyList xs) = (xs \<noteq> [])"
| "py_bool (PyDict kvs) = (kvs \<noteq> [])"

text \<open>
  The exceptions the interpreter itself raises from a subscription \<^verbatim>\<open>obj[key]\<close>.
  Their messages are the interpreter's and are not modelled.
\<close>

datatype lookup_error = LookupKeyError | LookupTypeError | LookupIndexError

text \<open>\<^verbatim>\<open>d.get(key, default)\<close> on a dictionary with a string key.\<close>

definition dict_get :: "pydict \<Rightarrow> string \<Rightarrow> pyval \<Rightarrow> pyval" where
  "dict_get d k dflt = (case map_of d k of None \<Rightarrow> dflt | Some v \<Rightarrow> v)"

text \<open>
  Lists and dictionaries are unhashable, so they are rejected as dictionary keys with
  a \<^verbatim>\<open>TypeError\<close> before any comparison.
\<close>

fun py_hashable :: "pyval \<Rightarrow> bool" where
  "py_hashable (PyList xs) = False"
| "py_hashable (PyDict kvs) = False"
| "py_hashable v = True"

text \<open>
  The integer a value offers as a sequence index (\<^verbatim>\<open>__index__\<close>): integers, and
  booleans as 0 and 1.
\<close>

fun py_index :: "pyval \<Rightarrow> int option" where
  "py_index (PyInt i) = Some i"
| "py_index (PyBool b) = Some (if b then 1 else 0)"
| "py_index v = None"

text \<open>Sequence indexing: a negative index counts from the end.\<close>

definition seq_getitem :: "'a list \<Rightarrow> int \<Rightarrow> lookup_error + 'a" where
  "seq_getitem xs i =
     (let n = int (length xs);
          j = (if i < 0 then i + n else i)
      in if 0 \<le> j \<and> j < n then Inr (xs ! nat j) else Inl LookupIndexError)"

text \<open>
  The subscription \<^verbatim>\<open>obj[key]\<close>. A dictionary of the model has string keys only, so
  any other hashable key is absent from it.
\<close>

fun py_getitem :: "pyval \<Rightarrow> pyval \<Rightarrow> lookup_error + pyval" where
  "py_getitem (PyDict kvs) key =
     (if \<not> py_hashable key then Inl LookupTypeError
      else case key of
             PyStr k \<Rightarrow> (case map_of kvs k of
                           None \<Rightarrow> Inl LookupKeyError
                         | Some v \<Rightarrow> Inr v)
           | _ \<Rightarrow> Inl LookupKeyError)"
| "py_getitem (PyList xs) key =
     (case py_index key of
        None \<Rightarrow> Inl LookupTypeError
      | Some i \<Rightarrow> seq_getitem xs i)"
| "py_getitem (PyStr s) key =
     (case py_index key of
        None \<Rightarrow> Inl LookupTypeError
      | Some i \<Rightarrow> (case seq_getitem s i of
                    Inl e \<Rightarrow> Inl e
                  | Inr c \<Rightarrow> Inr (PyStr [c])))"
| "py_getitem obj key = Inl LookupTypeError"

subsection \<open>Formatting values in f-strings\<close>

text \<open>
  An f-string field \<^verbatim>\<open>{v}\<close> inserts \<^verbatim>\<open>str(v)\<close>: a string itself, and the \<^verbatim>\<open>repr\<close> of any
  other value of the model. The \<^verbatim>\<open>repr\<close> of a string picks its quote, escapes the quote,
  the backslash, tab, newline and carriage return, and writes every other unprintable
  character as \<^verbatim>\<open>\xhh\<close>. The interpreter's limit on the number of digits of an integer
  it converts is not modelled.
\<close>

definition digit_char :: "nat \<Rightarrow> char" where
  "digit_char d = ''0123456789abcdef'' ! d"

fun nat_digits :: "nat \<Rightarrow> string" where
  "nat_digits n =
     (if n < 10 then [digit_char n]
      else nat_digits (n div 10) @ [digit_char (n mod 10)])"

declare nat_digits.simps [simp del]

definition int_str :: "int \<Rightarrow> string" where
  "int_str i = (if i < 0 then CHR ''-'' # nat_digits (nat (- i)) else nat_digits (nat i))"

definition py_isprintable :: "char \<Rightarrow> bool" where
  "py_isprintable c =
     (let n = (of_char c :: nat)
      in (32 \<le> n \<and> n < 127) \<or> (161 \<le> n \<and> n \<noteq> 173))"

definition repr_char :: "char \<Rightarrow> char \<Rightarrow> string" where
  "repr_char quote c =
     (if c = quote \<or> c = CHR 0x5C then [CHR 0x5C, c]
      else if c = CHR 0x09 then [CHR 0x5C, CHR ''t'']
      else if c = CHR 0x0A then [CHR 0x5C, CHR ''n'']
      else if c = CHR 0x0D then [CHR 0x5C, CHR ''r'']
      else if py_isprintable c then [c]
      else [CHR 0x5C, CHR ''x'',
            digit_char (of_char c div 16), digit_char (of_char c mod 16)])"

definition str_repr :: "string \<Rightarrow> string" where
  "str_repr s =
     (let quote = (if CHR 0x27 \<in> set s \<and> CHR 0x22 \<notin> set s then CHR 0x22 else CHR 0x27)
      in quote # concat (map (repr_char quote) s) @ [quote])"

fun join :: "string \<Rightarrow> string list \<Rightarrow> string" where
  "join sep [] = []"
| "join sep [x] = x"
| "join sep (x # y # ys) = x @ sep @ join sep (y # ys)"

primrec py_repr :: "pyval \<Rightarrow> string" where
  "py_repr PyNone = ''None''"
| "py_repr (PyBool b) = (if b then ''True'' else ''False'')"
| "py_repr (PyInt i) = int_str i"
| "py_repr (PyStr s) = str_repr s"
| "py_repr (PyList xs) = ''['' @ join '', '' (map py_repr xs) @ '']''"
| "py_repr (PyDict kvs) =
     ''{'' @ join '', '' (map (\<lambda>kr. str_repr (fst kr) @ '': '' @ snd kr)
                             (map (map_prod id py_repr) kvs)) @ ''}''"

fun py_str :: "pyval \<Rightarrow> string" where
  "py_str (PyStr s) = s"
| "py_str v = py_repr v"

subsection \<open>The environment, the logger and the exceptions\<close>

text \<open>
  What a call can observe or change outside its arguments: the process environment
  (\<^verbatim>\<open>os.environ\<close>, only ever read), the names \<^verbatim>\<open>os.getenv\<close> was called with, in
  order, and the records \<^verbatim>\<open>logger.error\<close> has emitted, in order.
\<close>

record world =
  environ :: "string \<Rightarrow> string option"
  getenv_calls :: "string list"
  log_records :: "string list"

definition os_getenv :: "string \<Rightarrow> world \<Rightarrow> string option \<times> world" where
  "os_getenv name w = (environ w name, w\<lparr>getenv_calls := getenv_calls w @ [name]\<rparr>)"

definition logger_error :: "string \<Rightarrow> world \<Rightarrow> world" where
  "logger_error msg w = w\<lparr>log_records := log_records w @ [msg]\<rparr>"

text \<open>
  The exceptions a call can end with. The first four are raised by the module with the
  message it built; \<open>TypeError\<close> and \<open>IndexError\<close> are the interpreter's, raised by a
  subscription inside a \<^verbatim>\<open>try\<close> block that catches \<^verbatim>\<open>KeyError\<close> only.
\<close>

datatype error =
    ValueError string
  | RuntimeError string
  | KeyError string
  | NotImplementedError string
  | TypeError
  | IndexError

subsection \<open>\<^verbatim>\<open>faasr_secret_gh\<close>\<close>

definition faasr_secret_gh :: "string \<Rightarrow> world \<Rightarrow> (error + string) \<times> world" where
  "faasr_secret_gh secret_name w =
     (let (secret_value, w1) = os_getenv secret_name w
      in case secret_value of
           None \<Rightarrow>
             let err_msg = ''faasr_secret: Secret '' @ [CHR 0x27] @ secret_name @ [CHR 0x27]
                           @ '' not found in environment variables''
             in (Inl (KeyError err_msg), logger_error err_msg w1)
         | Some v \<Rightarrow> (Inr v, w1))"

subsection \<open>\<^verbatim>\<open>faasr_secret\<close>\<close>

text \<open>
  The chained subscription \<^verbatim>\<open>a[k1][k2]\<close>: the second is evaluated only when the first
  returned.
\<close>

definition then_getitem :: "lookup_error + pyval \<Rightarrow> pyval \<Rightarrow> lookup_error + pyval" where
  "then_getitem r key = (case r of Inl e \<Rightarrow> Inl e | Inr obj \<Rightarrow> py_getitem obj key)"

text \<open>
  The result of a call is its outcome (the raised exception or the returned string),
  the payload object as the call leaves it, and the world as the call leaves it.
  The source is one function of five guarded steps and a \<^verbatim>\<open>match\<close>; the model follows
  it line by line. A \<^verbatim>\<open>KeyError\<close> inside a \<^verbatim>\<open>try\<close> block runs the handler, any other
  exception of a subscription leaves the function as it is, unlogged.
\<close>

definition faasr_secret ::
  "pydict \<Rightarrow> string \<Rightarrow> world \<Rightarrow> (error + string) \<times> pydict \<times> world" where
  "faasr_secret faasr_payload secret_name w =
     (if secret_name = [] then
        let err_msg = ''faasr_secret: secret_name cannot be empty''
        in (Inl (ValueError err_msg), faasr_payload, logger_error err_msg w)
      else
        let current_action = dict_get faasr_payload ''FunctionInvoke'' (PyStr []) in
        if \<not> py_bool current_action then
          let err_msg = ''faasr_secret: Cannot determine current function from payload''
          in (Inl (RuntimeError err_msg), faasr_payload, logger_error err_msg w)
        else
          case then_getitem (py_getitem (PyDict faasr_payload) (PyStr ''ActionList''))
                 current_action of
            Inl LookupKeyError \<Rightarrow>
              let err_msg = ''faasr_secret: Function '' @ py_str current_action
                            @ '' not found in ActionList''
              in (Inl (RuntimeError err_msg), faasr_payload, logger_error err_msg w)
          | Inl LookupTypeError \<Rightarrow> (Inl TypeError, faasr_payload, w)
          | Inl LookupIndexError \<Rightarrow> (Inl IndexError, faasr_payload, w)
          | Inr action_config \<Rightarrow>
              (case py_getitem action_config (PyStr ''FaaSServer'') of
                 Inl LookupKeyError \<Rightarrow>
                   let err_msg = ''faasr_secret: FaaSServer not found for function ''
                                 @ py_str current_action
                   in (Inl (RuntimeError err_msg), faasr_payload, logger_error err_msg w)
               | Inl LookupTypeError \<Rightarrow> (Inl TypeError, faasr_payload, w)
               | Inl LookupIndexError \<Rightarrow> (Inl IndexError, faasr_payload, w)
               | Inr server_name \<Rightarrow>
                   (case then_getitem
                           (then_getitem
                              (py_getitem (PyDict faasr_payload) (PyStr ''ComputeServers''))
                              server_name)
                           (PyStr ''FaaSType'') of
                      Inl LookupKeyError \<Rightarrow>
                        let err_msg = ''faasr_secret: Compute server '' @ py_str server_name
                                      @ '' not found or missing FaaSType''
                        in (Inl (RuntimeError err_msg), faasr_payload,
                            logger_error err_msg w)
                    | Inl LookupTypeError \<Rightarrow> (Inl TypeError, faasr_payload, w)
                    | Inl LookupIndexError \<Rightarrow> (Inl IndexError, faasr_payload, w)
                    | Inr server_type \<Rightarrow>
                        if server_type = PyStr ''GitHubActions'' then
                          let (r, w1) = faasr_secret_gh secret_name w
                          in (r, faasr_payload, w1)
                        else
                          let err_msg = ''faasr_secret: Compute server type '' @ [CHR 0x27]
                                        @ py_str server_type @ [CHR 0x27]
                                        @ '' is not supported. ''
                                        @ ''Only GitHubActions is currently supported.''
                          in (Inl (NotImplementedError err_msg), faasr_payload,
                              logger_error err_msg w))))"

subsection \<open>The validation steps, one by one\<close>

text \<open>
  The specification describes the resolver as a fixed sequence of steps. Here each
  step is written on its own, as a check of the payload and the secret name that
  either passes (\<open>None\<close>) or fails with the exception that step raises (\<open>Some\<close>).
  The values the steps look at are the source's expressions.
\<close>

definition current_action_of :: "pydict \<Rightarrow> pyval" where
  "current_action_of faasr_payload = dict_get faasr_payload ''FunctionInvoke'' (PyStr [])"

definition action_config_of :: "pydict \<Rightarrow> lookup_error + pyval" where
  "action_config_of faasr_payload =
     then_getitem (py_getitem (PyDict faasr_payload) (PyStr ''ActionList''))
       (current_action_of faasr_payload)"

definition server_name_of :: "pydict \<Rightarrow> lookup_error + pyval" where
  "server_name_of faasr_payload =
     (case action_config_of faasr_payload of
        Inl e \<Rightarrow> Inl e
      | Inr action_config \<Rightarrow> py_getitem action_config (PyStr ''FaaSServer''))"

definition server_type_of :: "pydict \<Rightarrow> lookup_error + pyval" where
  "server_type_of faasr_payload =
     (case server_name_of faasr_payload of
        Inl e \<Rightarrow> Inl e
      | Inr server_name \<Rightarrow>
          then_getitem
            (then_getitem (py_getitem (PyDict faasr_payload) (PyStr ''ComputeServers''))
               server_name)
            (PyStr ''FaaSType''))"

text \<open>
  What leaves a \<^verbatim>\<open>try\<close> block whose only handler is \<^verbatim>\<open>except KeyError\<close> and raises
  \<^verbatim>\<open>RuntimeError(msg)\<close>.
\<close>

fun raised :: "lookup_error \<Rightarrow> string \<Rightarrow> error" where
  "raised LookupKeyError msg = RuntimeError msg"
| "raised LookupTypeError msg = TypeError"
| "raised LookupIndexError msg = IndexError"

text \<open>Step 1: the secret name is non-empty.\<close>

definition check_secret_name :: "string \<Rightarrow> error option" where
  "check_secret_name secret_name =
     (if secret_name = [] then Some (ValueError ''faasr_secret: secret_name cannot be empty'')
      else None)"

text \<open>Step 2: \<^verbatim>\<open>FunctionInvoke\<close> is present and non-empty.\<close>

definition check_function_invoke :: "pydict \<Rightarrow> error option" where
  "check_function_invoke faasr_payload =
     (if py_bool (current_action_of faasr_payload) then None
      else Some (RuntimeError
                   ''faasr_secret: Cannot determine current function from payload''))"

text \<open>Step 3: \<^verbatim>\<open>ActionList\<close> has an entry for the current function.\<close>

definition check_action_list :: "pydict \<Rightarrow> error option" where
  "check_action_list faasr_payload =
     (case action_config_of faasr_payload of
        Inr action_config \<Rightarrow> None
      | Inl e \<Rightarrow>
          Some (raised e (''faasr_secret: Function ''
                          @ py_str (current_action_of faasr_payload)
                          @ '' not found in ActionList'')))"

text \<open>
  Step 4: the action configuration has \<^verbatim>\<open>FaaSServer\<close>. Where step 3 produced no
  action configuration there is nothing for this step to examine.
\<close>

definition check_faas_server :: "pydict \<Rightarrow> error option" where
  "check_faas_server faasr_payload =
     (case action_config_of faasr_payload of
        Inl e \<Rightarrow> None
      | Inr action_config \<Rightarrow>
          (case py_getitem action_config (PyStr ''FaaSServer'') of
             Inr server_name \<Rightarrow> None
           | Inl e \<Rightarrow>
               Some (raised e (''faasr_secret: FaaSServer not found for function ''
                               @ py_str (current_action_of faasr_payload)))))"

text \<open>Step 5: \<^verbatim>\<open>ComputeServers\<close> has that server, and the server has \<^verbatim>\<open>FaaSType\<close>.\<close>

definition check_compute_servers :: "pydict \<Rightarrow> error option" where
  "check_compute_servers faasr_payload =
     (case server_name_of faasr_payload of
        Inl e \<Rightarrow> None
      | Inr server_name \<Rightarrow>
          (case server_type_of faasr_payload of
             Inr server_type \<Rightarrow> None
           | Inl e \<Rightarrow>
               Some (raised e (''faasr_secret: Compute server '' @ py_str server_name
                               @ '' not found or missing FaaSType''))))"

text \<open>Step 6, the dispatch: the platform type is the supported one.\<close>

definition check_platform :: "pydict \<Rightarrow> error option" where
  "check_platform faasr_payload =
     (case server_type_of faasr_payload of
        Inl e \<Rightarrow> None
      | Inr server_type \<Rightarrow>
          if server_type = PyStr ''GitHubActions'' then None
          else Some (NotImplementedError
                       (''faasr_secret: Compute server type '' @ [CHR 0x27]
                        @ py_str server_type @ [CHR 0x27] @ '' is not supported. ''
                        @ ''Only GitHubActions is currently supported.'')))"

definition validation_order :: "pydict \<Rightarrow> string \<Rightarrow> error option list" where
  "validation_order faasr_payload secret_name =
     [check_secret_name secret_name,
      check_function_invoke faasr_payload,
      check_action_list faasr_payload,
      check_faas_server faasr_payload,
      check_compute_servers faasr_payload,
      check_platform faasr_payload]"

text \<open>The failure of the first check, in list order, that fails.\<close>

fun earliest_failure :: "error option list \<Rightarrow> error option" where
  "earliest_failure [] = None"
| "earliest_failure (Some e # checks) = Some e"
| "earliest_failure (None # checks) = earliest_failure checks"

subsection \<open>The scenario of the specification\<close>

text \<open>
  The payload shape of the specification's scenario: the current function \<open>f\<close> runs
  on server \<open>s\<close>, whose \<^verbatim>\<open>FaaSType\<close> is \<open>t\<close>. The scenario itself has \<^verbatim>\<open>f1\<close> and \<^verbatim>\<open>s1\<close>.
  Its world has the single environment variable \<^verbatim>\<open>MY_SECRET\<close>, nothing read and
  nothing logged yet.
\<close>

definition payload_shape :: "string \<Rightarrow> string \<Rightarrow> pyval \<Rightarrow> pydict" where
  "payload_shape f s t =
     [(''FunctionInvoke'', PyStr f),
      (''ActionList'', PyDict [(f, PyDict [(''FaaSServer'', PyStr s)])]),
      (''ComputeServers'', PyDict [(s, PyDict [(''FaaSType'', t)])])]"

definition scenario_payload :: "pyval \<Rightarrow> pydict" where
  "scenario_payload t = payload_shape ''f1'' ''s1'' t"

definition scenario_world :: "string \<Rightarrow> world" where
  "scenario_world v =
     \<lparr>environ = [''MY_SECRET'' \<mapsto> v], getenv_calls = [], log_records = []\<rparr>"

section \<open>The environment-variable getter\<close>

text \<open>
  C3. For every name that is present in the environment store, \<^verbatim>\<open>faasr_secret_gh\<close>
  returns the stored value itself: the same character list, whatever it contains
  (also the empty string, and leading or trailing blanks). The call reads the
  environment once and logs nothing.
\<close>

theorem faasr_secret_gh_returns_stored_value:
  assumes "environ w secret_name = Some v"
  shows "faasr_secret_gh secret_name w
           = (Inr v, w\<lparr>getenv_calls := getenv_calls w @ [secret_name]\<rparr>)"
  using assms by (simp add: faasr_secret_gh_def os_getenv_def)

theorem faasr_secret_gh_returns_stored_value_witness:
  "environ (scenario_world '' abc 123  '') ''MY_SECRET'' = Some '' abc 123  ''
   \<and> fst (faasr_secret_gh ''MY_SECRET'' (scenario_world '' abc 123  ''))
       = Inr '' abc 123  ''"
proof -
  have present: "environ (scenario_world '' abc 123  '') ''MY_SECRET'' = Some '' abc 123  ''"
    by (simp add: scenario_world_def)
  from faasr_secret_gh_returns_stored_value [OF present] present
  show ?thesis by simp
qed

text \<open>
  C4. For every name that is absent from the environment store, \<^verbatim>\<open>faasr_secret_gh\<close>
  returns no value: it raises \<^verbatim>\<open>KeyError\<close> with the message
  \<^verbatim>\<open>faasr_secret: Secret '<name>' not found in environment variables\<close>, which contains
  the name, and has logged that message.
\<close>

theorem faasr_secret_gh_absent_raises_key_error:
  assumes "environ w secret_name = None"
  shows "faasr_secret_gh secret_name w
           = (Inl (KeyError (''faasr_secret: Secret '' @ [CHR 0x27] @ secret_name
                             @ [CHR 0x27] @ '' not found in environment variables'')),
              w\<lparr>getenv_calls := getenv_calls w @ [secret_name],
                log_records := log_records w
                  @ [''faasr_secret: Secret '' @ [CHR 0x27] @ secret_name
                     @ [CHR 0x27] @ '' not found in environment variables'']\<rparr>)"
  using assms by (simp add: faasr_secret_gh_def os_getenv_def logger_error_def Let_def)

theorem faasr_secret_gh_absent_raises_key_error_witness:
  "environ (scenario_world ''abc123'') ''OTHER'' = None
   \<and> fst (faasr_secret_gh ''OTHER'' (scenario_world ''abc123''))
       = Inl (KeyError (''faasr_secret: Secret '' @ [CHR 0x27] @ ''OTHER'' @ [CHR 0x27]
                        @ '' not found in environment variables''))"
proof -
  have absent: "environ (scenario_world ''abc123'') ''OTHER'' = None"
    by (simp add: scenario_world_def)
  from faasr_secret_gh_absent_raises_key_error [OF absent] absent
  show ?thesis by simp
qed

section \<open>The secret resolver\<close>

text \<open>
  C5. For every payload and every world, \<^verbatim>\<open>faasr_secret\<close> called with the empty
  secret name raises \<^verbatim>\<open>ValueError\<close>. The outcome is the same for every payload and
  every environment, the environment has not been read (\<open>getenv_calls\<close> is as before),
  and the only effect is the one log record.
\<close>

theorem faasr_secret_empty_name_raises_value_error:
  "faasr_secret faasr_payload [] w
     = (Inl (ValueError ''faasr_secret: secret_name cannot be empty''),
        faasr_payload,
        w\<lparr>log_records := log_records w @ [''faasr_secret: secret_name cannot be empty'']\<rparr>)"
  by (simp add: faasr_secret_def logger_error_def Let_def)

text \<open>
  C10. \<^verbatim>\<open>faasr_secret_gh\<close> has no emptiness check of its own. Called with the empty
  name, absent from the environment, it raises the \<^verbatim>\<open>KeyError\<close> of a missing secret
  (the name between the quotes of the message is empty), where \<^verbatim>\<open>faasr_secret\<close> raises
  \<^verbatim>\<open>ValueError\<close> for the same name.
\<close>

theorem faasr_secret_gh_empty_name_is_key_error:
  assumes "environ w [] = None"
  shows "fst (faasr_secret_gh [] w)
           = Inl (KeyError (''faasr_secret: Secret '' @ [CHR 0x27, CHR 0x27]
                            @ '' not found in environment variables''))
         \<and> fst (faasr_secret faasr_payload [] w)
           = Inl (ValueError ''faasr_secret: secret_name cannot be empty'')"
  using assms
  by (simp add: faasr_secret_gh_def os_getenv_def faasr_secret_def Let_def)

theorem faasr_secret_gh_empty_name_is_key_error_witness:
  "environ (scenario_world ''abc123'') [] = None
   \<and> fst (faasr_secret_gh [] (scenario_world ''abc123''))
       = Inl (KeyError (''faasr_secret: Secret '' @ [CHR 0x27, CHR 0x27]
                        @ '' not found in environment variables''))
   \<and> fst (faasr_secret (scenario_payload (PyStr ''GitHubActions'')) []
             (scenario_world ''abc123''))
       = Inl (ValueError ''faasr_secret: secret_name cannot be empty'')"
proof -
  have absent: "environ (scenario_world ''abc123'') [] = None"
    by (simp add: scenario_world_def)
  from faasr_secret_gh_empty_name_is_key_error [OF absent] absent
  show ?thesis by simp
qed

text \<open>
  C1. For every payload in which \<^verbatim>\<open>FunctionInvoke\<close> is a non-empty string \<open>f\<close>,
  \<^verbatim>\<open>ActionList\<close> maps \<open>f\<close> to a mapping whose \<^verbatim>\<open>FaaSServer\<close> is a string \<open>s\<close>, and
  \<^verbatim>\<open>ComputeServers\<close> maps \<open>s\<close> to a mapping whose \<^verbatim>\<open>FaaSType\<close> is
  \<^verbatim>\<open>"GitHubActions"\<close>, and for every non-empty secret name that is present in the
  environment, \<^verbatim>\<open>faasr_secret\<close> returns exactly the stored value; it has read the
  environment once, logged nothing and left the payload as it was. The payload may
  hold further keys; the shape of the claim is the case with none.
\<close>

theorem faasr_secret_github_actions_returns_secret:
  assumes "secret_name \<noteq> []"
    and "f \<noteq> []"
    and "map_of faasr_payload ''FunctionInvoke'' = Some (PyStr f)"
    and "map_of faasr_payload ''ActionList'' = Some (PyDict action_list)"
    and "map_of action_list f = Some (PyDict action_config)"
    and "map_of action_config ''FaaSServer'' = Some (PyStr s)"
    and "map_of faasr_payload ''ComputeServers'' = Some (PyDict compute_servers)"
    and "map_of compute_servers s = Some (PyDict server_config)"
    and "map_of server_config ''FaaSType'' = Some (PyStr ''GitHubActions'')"
    and "environ w secret_name = Some v"
  shows "faasr_secret faasr_payload secret_name w
           = (Inr v, faasr_payload, w\<lparr>getenv_calls := getenv_calls w @ [secret_name]\<rparr>)"
  using assms
  by (simp add: faasr_secret_def dict_get_def then_getitem_def faasr_secret_gh_def
        os_getenv_def)

theorem faasr_secret_github_actions_returns_secret_witness:
  "''MY_SECRET'' \<noteq> [] \<and> ''f1'' \<noteq> []
   \<and> scenario_payload (PyStr ''GitHubActions'')
       = [(''FunctionInvoke'', PyStr ''f1''),
          (''ActionList'', PyDict [(''f1'', PyDict [(''FaaSServer'', PyStr ''s1'')])]),
          (''ComputeServers'',
           PyDict [(''s1'', PyDict [(''FaaSType'', PyStr ''GitHubActions'')])])]
   \<and> environ (scenario_world ''abc123'') ''MY_SECRET'' = Some ''abc123''
   \<and> fst (faasr_secret (scenario_payload (PyStr ''GitHubActions'')) ''MY_SECRET''
            (scenario_world ''abc123''))
       = Inr ''abc123''"
  using faasr_secret_github_actions_returns_secret
          [of "''MY_SECRET''" "''f1''" "scenario_payload (PyStr ''GitHubActions'')"
              "[(''f1'', PyDict [(''FaaSServer'', PyStr ''s1'')])]"
              "[(''FaaSServer'', PyStr ''s1'')]" "''s1''"
              "[(''s1'', PyDict [(''FaaSType'', PyStr ''GitHubActions'')])]"
              "[(''FaaSType'', PyStr ''GitHubActions'')]"
              "scenario_world ''abc123''" "''abc123''"]
  by (simp add: scenario_payload_def payload_shape_def scenario_world_def)

text \<open>
  C1 as it is written ranges over every \<open>f\<close>, the empty string included. The payload
  of the claimed shape with \<open>f\<close> empty is rejected by the guard on \<^verbatim>\<open>FunctionInvoke\<close>:
  the secret is in the environment, yet the call raises \<^verbatim>\<open>RuntimeError\<close>.
\<close>

theorem faasr_secret_empty_function_name_counterexample:
  "''MY_SECRET'' \<noteq> []
   \<and> payload_shape [] ''s1'' (PyStr ''GitHubActions'')
       = [(''FunctionInvoke'', PyStr []),
          (''ActionList'', PyDict [([], PyDict [(''FaaSServer'', PyStr ''s1'')])]),
          (''ComputeServers'',
           PyDict [(''s1'', PyDict [(''FaaSType'', PyStr ''GitHubActions'')])])]
   \<and> environ (scenario_world ''abc123'') ''MY_SECRET'' = Some ''abc123''
   \<and> fst (faasr_secret (payload_shape [] ''s1'' (PyStr ''GitHubActions'')) ''MY_SECRET''
            (scenario_world ''abc123''))
       = Inl (RuntimeError ''faasr_secret: Cannot determine current function from payload'')"
  by (simp add: payload_shape_def scenario_world_def faasr_secret_def dict_get_def Let_def)

text \<open>
  C6. The secret name is a Secret Name of the data model, a non-empty string. For every
  payload that resolves the current function (a non-empty string \<open>f\<close>) to a server
  \<open>s\<close> whose \<^verbatim>\<open>FaaSType\<close> is a string \<open>t\<close> other than \<^verbatim>\<open>"GitHubActions"\<close>, \<^verbatim>\<open>faasr_secret\<close>
  raises \<^verbatim>\<open>NotImplementedError\<close> with the message
  \<^verbatim>\<open>faasr_secret: Compute server type '<t>' is not supported. Only GitHubActions is
  currently supported.\<close> It has logged that message and has not read the environment:
  \<open>getenv_calls\<close> is as before the call.
\<close>

theorem faasr_secret_other_platform_not_implemented:
  assumes "secret_name \<noteq> []"
    and "f \<noteq> []"
    and "map_of faasr_payload ''FunctionInvoke'' = Some (PyStr f)"
    and "map_of faasr_payload ''ActionList'' = Some (PyDict action_list)"
    and "map_of action_list f = Some (PyDict action_config)"
    and "map_of action_config ''FaaSServer'' = Some (PyStr s)"
    and "map_of faasr_payload ''ComputeServers'' = Some (PyDict compute_servers)"
    and "map_of compute_servers s = Some (PyDict server_config)"
    and "map_of server_config ''FaaSType'' = Some (PyStr t)"
    and "t \<noteq> ''GitHubActions''"
  shows "faasr_secret faasr_payload secret_name w
           = (Inl (NotImplementedError
                     (''faasr_secret: Compute server type '' @ [CHR 0x27] @ t @ [CHR 0x27]
                      @ '' is not supported. Only GitHubActions is currently supported.'')),
              faasr_payload,
              w\<lparr>log_records := log_records w
                @ [''faasr_secret: Compute server type '' @ [CHR 0x27] @ t @ [CHR 0x27]
                   @ '' is not supported. Only GitHubActions is currently supported.'']\<rparr>)"
  using assms
  by (simp add: faasr_secret_def dict_get_def then_getitem_def logger_error_def Let_def)

theorem faasr_secret_other_platform_not_implemented_witness:
  "''MY_SECRET'' \<noteq> [] \<and> ''f1'' \<noteq> [] \<and> ''AWS Lambda'' \<noteq> ''GitHubActions''
   \<and> scenario_payload (PyStr ''AWS Lambda'')
       = [(''FunctionInvoke'', PyStr ''f1''),
          (''ActionList'', PyDict [(''f1'', PyDict [(''FaaSServer'', PyStr ''s1'')])]),
          (''ComputeServers'',
           PyDict [(''s1'', PyDict [(''FaaSType'', PyStr ''AWS Lambda'')])])]
   \<and> faasr_secret (scenario_payload (PyStr ''AWS Lambda'')) ''MY_SECRET''
         (scenario_world ''abc123'')
       = (Inl (NotImplementedError
                 (''faasr_secret: Compute server type '' @ [CHR 0x27] @ ''AWS Lambda''
                  @ [CHR 0x27]
                  @ '' is not supported. Only GitHubActions is currently supported.'')),
          scenario_payload (PyStr ''AWS Lambda''),
          \<lparr>environ = [''MY_SECRET'' \<mapsto> ''abc123''], getenv_calls = [],
           log_records =
             [''faasr_secret: Compute server type '' @ [CHR 0x27] @ ''AWS Lambda''
              @ [CHR 0x27]
              @ '' is not supported. Only GitHubActions is currently supported.'']\<rparr>)"
  using faasr_secret_other_platform_not_implemented
          [of "''MY_SECRET''" "''f1''" "scenario_payload (PyStr ''AWS Lambda'')"
              "[(''f1'', PyDict [(''FaaSServer'', PyStr ''s1'')])]"
              "[(''FaaSServer'', PyStr ''s1'')]" "''s1''"
              "[(''s1'', PyDict [(''FaaSType'', PyStr ''AWS Lambda'')])]"
              "[(''FaaSType'', PyStr ''AWS Lambda'')]" "''AWS Lambda''"
              "scenario_world ''abc123''"]
  by (simp add: scenario_payload_def payload_shape_def scenario_world_def)

text \<open>
  C7. The secret name is a Secret Name of the data model, a non-empty string, and
  \<^verbatim>\<open>ActionList\<close>, where the payload has it, is a mapping, as the data model has it. For
  every payload whose \<^verbatim>\<open>FunctionInvoke\<close> is a non-empty string \<open>f\<close> and whose
  \<^verbatim>\<open>ActionList\<close> has no entry for \<open>f\<close> (the payload has no \<^verbatim>\<open>ActionList\<close> at all, or its
  \<^verbatim>\<open>ActionList\<close> has no key \<open>f\<close>), \<^verbatim>\<open>faasr_secret\<close> raises \<^verbatim>\<open>RuntimeError\<close> with the
  message \<^verbatim>\<open>faasr_secret: Function <f> not found in ActionList\<close>, and has logged it.
\<close>

theorem faasr_secret_function_not_in_action_list:
  assumes "secret_name \<noteq> []"
    and "f \<noteq> []"
    and "map_of faasr_payload ''FunctionInvoke'' = Some (PyStr f)"
    and "map_of faasr_payload ''ActionList'' = None
         \<or> (\<exists>action_list.
               map_of faasr_payload ''ActionList'' = Some (PyDict action_list)
               \<and> map_of action_list f = None)"
  shows "faasr_secret faasr_payload secret_name w
           = (Inl (RuntimeError
                     (''faasr_secret: Function '' @ f @ '' not found in ActionList'')),
              faasr_payload,
              w\<lparr>log_records := log_records w
                @ [''faasr_secret: Function '' @ f @ '' not found in ActionList'']\<rparr>)"
  using assms
  by (auto simp add: faasr_secret_def dict_get_def then_getitem_def logger_error_def Let_def)

theorem faasr_secret_function_not_in_action_list_witness:
  "''MY_SECRET'' \<noteq> [] \<and> ''f2'' \<noteq> []
   \<and> map_of [(''FunctionInvoke'', PyStr ''f2''),
              (''ActionList'', PyDict [(''f1'', PyDict [(''FaaSServer'', PyStr ''s1'')])])]
        ''ActionList''
       = Some (PyDict [(''f1'', PyDict [(''FaaSServer'', PyStr ''s1'')])])
   \<and> map_of [(''f1'', PyDict [(''FaaSServer'', PyStr ''s1'')])] ''f2'' = None
   \<and> fst (faasr_secret
             [(''FunctionInvoke'', PyStr ''f2''),
              (''ActionList'', PyDict [(''f1'', PyDict [(''FaaSServer'', PyStr ''s1'')])])]
             ''MY_SECRET'' (scenario_world ''abc123''))
       = Inl (RuntimeError ''faasr_secret: Function f2 not found in ActionList'')
   \<and> map_of [(''FunctionInvoke'', PyStr ''f2'')] ''ActionList'' = None
   \<and> fst (faasr_secret [(''FunctionInvoke'', PyStr ''f2'')] ''MY_SECRET''
             (scenario_world ''abc123''))
       = Inl (RuntimeError ''faasr_secret: Function f2 not found in ActionList'')"
  using faasr_secret_function_not_in_action_list
          [of "''MY_SECRET''" "''f2''"
              "[(''FunctionInvoke'', PyStr ''f2''),
                (''ActionList'', PyDict [(''f1'', PyDict [(''FaaSServer'', PyStr ''s1'')])])]"
              "scenario_world ''abc123''"]
        faasr_secret_function_not_in_action_list
          [of "''MY_SECRET''" "''f2''" "[(''FunctionInvoke'', PyStr ''f2'')]"
              "scenario_world ''abc123''"]
  by simp

subsection \<open>The order of the steps\<close>

text \<open>
  C2. For every payload, secret name and world, the outcome of \<^verbatim>\<open>faasr_secret\<close> is
  fixed by the steps in the order: secret name, \<^verbatim>\<open>FunctionInvoke\<close>, \<^verbatim>\<open>ActionList\<close>,
  \<^verbatim>\<open>FaaSServer\<close>, \<^verbatim>\<open>ComputeServers\<close> with \<^verbatim>\<open>FaaSType\<close>, platform dispatch. When some step
  fails, the exception raised is that of the earliest failing step, whatever the later
  steps would find; when none fails, the outcome is that of the environment getter.
\<close>

theorem faasr_secret_raises_earliest_failure:
  "fst (faasr_secret faasr_payload secret_name w)
     = (case earliest_failure (validation_order faasr_payload secret_name) of
          Some e \<Rightarrow> Inl e
        | None \<Rightarrow> fst (faasr_secret_gh secret_name w))"
  by (auto simp add: faasr_secret_def validation_order_def check_secret_name_def
        check_function_invoke_def check_action_list_def check_faas_server_def
        check_compute_servers_def check_platform_def current_action_of_def
        action_config_of_def server_name_of_def server_type_of_def Let_def
      split: sum.splits lookup_error.splits prod.splits)

text \<open>
  The example of the claim: \<^verbatim>\<open>FunctionInvoke\<close> is empty and \<^verbatim>\<open>ActionList\<close> is missing.
  Steps 2 and 3 both fail on this payload; the exception raised is that of step 2.
\<close>

theorem faasr_secret_raises_earliest_failure_witness:
  "check_secret_name ''MY_SECRET'' = None
   \<and> check_function_invoke [(''FunctionInvoke'', PyStr [])]
       = Some (RuntimeError ''faasr_secret: Cannot determine current function from payload'')
   \<and> check_action_list [(''FunctionInvoke'', PyStr [])]
       = Some (RuntimeError ''faasr_secret: Function  not found in ActionList'')
   \<and> fst (faasr_secret [(''FunctionInvoke'', PyStr [])] ''MY_SECRET''
            (scenario_world ''abc123''))
       = Inl (RuntimeError ''faasr_secret: Cannot determine current function from payload'')"
  using faasr_secret_raises_earliest_failure
          [of "[(''FunctionInvoke'', PyStr [])]" "''MY_SECRET''" "scenario_world ''abc123''"]
  by (simp add: validation_order_def check_secret_name_def check_function_invoke_def
        check_action_list_def current_action_of_def action_config_of_def dict_get_def
        then_getitem_def)

subsection \<open>What a call leaves behind\<close>

lemma faasr_secret_gh_outcome:
  "fst (faasr_secret_gh secret_name w)
     = (case environ w secret_name of
          None \<Rightarrow>
            Inl (KeyError (''faasr_secret: Secret '' @ [CHR 0x27] @ secret_name @ [CHR 0x27]
                           @ '' not found in environment variables''))
        | Some v \<Rightarrow> Inr v)"
  by (simp add: faasr_secret_gh_def os_getenv_def Let_def split: option.splits)

lemma faasr_secret_gh_environ:
  "environ (snd (faasr_secret_gh secret_name w)) = environ w"
  by (simp add: faasr_secret_gh_def os_getenv_def logger_error_def Let_def
      split: option.splits)

lemma faasr_secret_payload:
  "fst (snd (faasr_secret faasr_payload secret_name w)) = faasr_payload"
  by (simp add: faasr_secret_def Let_def split: sum.splits lookup_error.splits prod.splits)

lemma faasr_secret_environ:
  "environ (snd (snd (faasr_secret faasr_payload secret_name w))) = environ w"
  using faasr_secret_gh_environ [of secret_name w]
  by (auto simp add: faasr_secret_def Let_def logger_error_def
      split: sum.splits lookup_error.splits prod.splits)

lemma faasr_secret_outcome_cong:
  assumes "environ w' = environ w"
  shows "fst (faasr_secret faasr_payload secret_name w')
           = fst (faasr_secret faasr_payload secret_name w)"
  using assms faasr_secret_gh_outcome [of secret_name w]
    faasr_secret_gh_outcome [of secret_name w']
  by (auto simp add: faasr_secret_def Let_def
      split: sum.splits lookup_error.splits prod.splits)

text \<open>
  C8. For every payload, secret name and world, on the success path and on every
  failure path, the payload after the call is the payload before it. The environment
  is left as it was too; only the log and the record of environment reads grow.
\<close>

theorem faasr_secret_leaves_payload_unchanged:
  "fst (snd (faasr_secret faasr_payload secret_name w)) = faasr_payload
   \<and> environ (snd (snd (faasr_secret faasr_payload secret_name w))) = environ w"
  by (simp add: faasr_secret_payload faasr_secret_environ)

text \<open>
  C9. The outcome of \<^verbatim>\<open>faasr_secret\<close> (the returned string, or the exception with its
  message) is a function of the payload, the secret name and the environment alone:
  two runs in worlds with the same environment, whatever was logged or read before,
  end the same way; and a second run, started from the payload and the world the
  first run left, ends as the first did.
\<close>

theorem faasr_secret_deterministic_idempotent:
  assumes "environ w' = environ w"
  shows "fst (faasr_secret faasr_payload secret_name w')
           = fst (faasr_secret faasr_payload secret_name w)
         \<and> (case faasr_secret faasr_payload secret_name w of
               (outcome, payload_after, world_after) \<Rightarrow>
                 fst (faasr_secret payload_after secret_name world_after) = outcome)"
proof
  show "fst (faasr_secret faasr_payload secret_name w')
          = fst (faasr_secret faasr_payload secret_name w)"
    using assms by (rule faasr_secret_outcome_cong)
next
  obtain outcome payload_after world_after
    where run: "faasr_secret faasr_payload secret_name w
                  = (outcome, payload_after, world_after)"
    by (cases "faasr_secret faasr_payload secret_name w") auto
  have same_payload: "payload_after = faasr_payload"
    using faasr_secret_payload [of faasr_payload secret_name w] run by simp
  have same_environ: "environ world_after = environ w"
    using faasr_secret_environ [of faasr_payload secret_name w] run by simp
  have "fst (faasr_secret payload_after secret_name world_after) = outcome"
    using faasr_secret_outcome_cong [OF same_environ, of faasr_payload secret_name]
      same_payload run by simp
  then show "case faasr_secret faasr_payload secret_name w of
               (outcome, payload_after, world_after) \<Rightarrow>
                 fst (faasr_secret payload_after secret_name world_after) = outcome"
    using run by simp
qed

theorem faasr_secret_deterministic_idempotent_witness:
  "environ ((scenario_world ''abc123'')\<lparr>log_records := [''an earlier record'']\<rparr>)
     = environ (scenario_world ''abc123'')
   \<and> fst (faasr_secret (scenario_payload (PyStr ''GitHubActions'')) ''MY_SECRET''
            (scenario_world ''abc123''))
       = Inr ''abc123''
   \<and> fst (faasr_secret (scenario_payload (PyStr ''GitHubActions'')) ''MY_SECRET''
            ((scenario_world ''abc123'')\<lparr>log_records := [''an earlier record'']\<rparr>))
       = Inr ''abc123''
   \<and> (case faasr_secret (scenario_payload (PyStr ''GitHubActions'')) ''MY_SECRET''
              (scenario_world ''abc123'') of
         (outcome, payload_after, world_after) \<Rightarrow>
           fst (faasr_secret payload_after ''MY_SECRET'' world_after) = outcome)"
proof -
  have same: "environ ((scenario_world ''abc123'')\<lparr>log_records := [''an earlier record'']\<rparr>)
                = environ (scenario_world ''abc123'')"
    by simp
  have first_run:
    "fst (faasr_secret (scenario_payload (PyStr ''GitHubActions'')) ''MY_SECRET''
            (scenario_world ''abc123''))
       = Inr ''abc123''"
    by (simp add: scenario_payload_def payload_shape_def scenario_world_def faasr_secret_def
          dict_get_def then_getitem_def faasr_secret_gh_def os_getenv_def)
  note runs = faasr_secret_deterministic_idempotent
                [OF same, of "scenario_payload (PyStr ''GitHubActions'')" "''MY_SECRET''"]
  have other_run:
    "fst (faasr_secret (scenario_payload (PyStr ''GitHubActions'')) ''MY_SECRET''
            ((scenario_world ''abc123'')\<lparr>log_records := [''an earlier record'']\<rparr>))
       = Inr ''abc123''"
    using conjunct1 [OF runs] first_run by (rule trans)
  show ?thesis
    by (rule conjI [OF same conjI [OF first_run conjI [OF other_run conjunct2 [OF runs]]]])
qed

end
